theory Spec2Isabelle
  imports Main "HOL-Library.AList"
begin

section \<open>The transcript script: values, errors and the outside world\<close>

text \<open>
  The program is one Python script, \<^verbatim>\<open>get_transcript.py\<close>, with three parts:
  \<^verbatim>\<open>extract_video_id\<close>, \<^verbatim>\<open>get_transcript\<close> and the command-line entry point. It leans
  on two functions of the standard library, \<^verbatim>\<open>urlparse\<close> and \<^verbatim>\<open>parse_qs\<close> of
  \<^verbatim>\<open>urllib.parse\<close>, which are modelled after the library's own source (CPython 3.11),
  and on one external service, \<^verbatim>\<open>YouTubeTranscriptApi.get_transcript\<close>, which is a
  parameter of the model.

  A Python \<^verbatim>\<open>str\<close> is a \<^typ>\<open>string\<close>. Every delimiter the code looks for is an ASCII
  character, so text outside ASCII is carried along untouched (read a character outside
  ASCII as the bytes of its UTF-8 encoding). The operations of the library whose result
  depends on Unicode tables or on other modules are the fields of \<open>pylib\<close> below; every
  theorem holds for all values of these fields.
\<close>

datatype py_exception =
    ValueError string
  | KeyError string
  | IndexError string
  | Raised string

text \<open>
  \<^verbatim>\<open>str(e)\<close>: the message of the exception; for a \<^verbatim>\<open>KeyError\<close> the \<^verbatim>\<open>repr\<close> of the
  missing key, which for a key without quotes, backslashes or unprintable characters
  (the only key this program looks up is \<^verbatim>\<open>v\<close>) is the key between single quotes.
  \<open>Raised\<close> stands for any other subclass of \<^verbatim>\<open>Exception\<close>, with its message.
\<close>

definition py_repr :: "string \<Rightarrow> string" where
  "py_repr k = [CHR 0x27] @ k @ [CHR 0x27]"

fun py_str :: "py_exception \<Rightarrow> string" where
  "py_str (ValueError m) = m"
| "py_str (KeyError k) = py_repr k"
| "py_str (IndexError m) = m"
| "py_str (Raised m) = m"

record pylib =
  lower_unicode :: "string \<Rightarrow> string"
    \<comment> \<open>\<^verbatim>\<open>str.lower()\<close> on text that is not all ASCII\<close>
  normalize_nfkc :: "string \<Rightarrow> string"
    \<comment> \<open>\<^verbatim>\<open>unicodedata.normalize('NFKC', n)\<close>\<close>
  check_bracketed_host :: "string \<Rightarrow> string option"
    \<comment> \<open>\<^verbatim>\<open>_check_bracketed_host\<close> (regular expressions and \<^verbatim>\<open>ipaddress\<close>):
        \<open>Some m\<close> when it raises \<^verbatim>\<open>ValueError(m)\<close>\<close>
  unquote_escapes :: "string \<Rightarrow> string"
    \<comment> \<open>\<^verbatim>\<open>unquote\<close> on a string that contains a percent sign (UTF-8 decoding with
        replacement)\<close>

text \<open>
  The values of the result dictionary, and the dictionary itself with its keys in
  insertion order. The transcript segments come from the service and are passed on
  as they are, so their type is a parameter.
\<close>

datatype 'seg pyval = PStr string | PBool bool | PList "'seg list"

type_synonym 'seg pydict = "(string \<times> 'seg pyval) list"

type_synonym 'seg service = "string \<Rightarrow> py_exception + 'seg list"

text \<open>
  The service either returns the segments or raises; only exceptions of the class
  \<^verbatim>\<open>Exception\<close> are modelled (an interrupt of the process is not).

  What the program does to the outside: the identifiers it has asked the service for,
  and the objects it has printed. Each \<^verbatim>\<open>print(json.dumps(d))\<close> adds the dictionary \<open>d\<close>
  itself: its JSON text is not modelled, and the segments of the service are taken to
  be values that \<^verbatim>\<open>json.dumps\<close> accepts, as the records of text, start and duration are.
\<close>

record 'seg world =
  service_calls :: "string list"
  stdout :: "'seg pydict list"

section \<open>String operations of Python\<close>

definition isascii :: "string \<Rightarrow> bool" where
  "isascii s = (\<forall>c \<in> set s. (of_char c :: nat) < 128)"

definition ascii_upper :: string where
  "ascii_upper = ''ABCDEFGHIJKLMNOPQRSTUVWXYZ''"

definition ascii_lower :: string where
  "ascii_lower = ''abcdefghijklmnopqrstuvwxyz''"

definition lower_char :: "char \<Rightarrow> char" where
  "lower_char c = (case map_of (zip ascii_upper ascii_lower) c of Some l \<Rightarrow> l | None \<Rightarrow> c)"

definition lower :: "pylib \<Rightarrow> string \<Rightarrow> string" where
  "lower L s = (if isascii s then map lower_char s else lower_unicode L s)"

definition remove_char :: "char \<Rightarrow> string \<Rightarrow> string" where
  \<comment> \<open>\<^verbatim>\<open>s.replace(b, "")\<close>\<close>
  "remove_char b s = filter (\<lambda>c. c \<noteq> b) s"

definition str_find :: "char \<Rightarrow> string \<Rightarrow> nat option" where
  \<comment> \<open>\<^verbatim>\<open>s.find(c)\<close>, with \<open>None\<close> for -1\<close>
  "str_find c s = (if c \<in> set s then Some (length (takeWhile (\<lambda>x. x \<noteq> c) s)) else None)"

definition str_rfind :: "char \<Rightarrow> string \<Rightarrow> nat option" where
  "str_rfind c s =
     (if c \<in> set s then Some (length s - 1 - length (takeWhile (\<lambda>x. x \<noteq> c) (rev s))) else None)"

definition str_find_from :: "char \<Rightarrow> string \<Rightarrow> nat \<Rightarrow> nat option" where
  \<comment> \<open>\<^verbatim>\<open>s.find(c, start)\<close>\<close>
  "str_find_from c s start = map_option (\<lambda>i. start + i) (str_find c (drop start s))"

definition str_partition :: "char \<Rightarrow> string \<Rightarrow> string \<times> bool \<times> string" where
  \<comment> \<open>\<^verbatim>\<open>s.partition(c)\<close>; the middle component says whether the separator was found\<close>
  "str_partition c s =
     (takeWhile (\<lambda>x. x \<noteq> c) s, c \<in> set s, drop 1 (dropWhile (\<lambda>x. x \<noteq> c) s))"

definition str_rpartition :: "char \<Rightarrow> string \<Rightarrow> string \<times> bool \<times> string" where
  "str_rpartition c s =
     (if c \<in> set s
      then (rev (drop 1 (dropWhile (\<lambda>x. x \<noteq> c) (rev s))), True,
            rev (takeWhile (\<lambda>x. x \<noteq> c) (rev s)))
      else ([], False, s))"

fun py_split :: "char \<Rightarrow> string \<Rightarrow> string list" where
  \<comment> \<open>\<^verbatim>\<open>s.split(sep)\<close>\<close>
  "py_split sep [] = [[]]"
| "py_split sep (c # cs) =
     (if c = sep then [] # py_split sep cs
      else (case py_split sep cs of [] \<Rightarrow> [[c]] | x # xs \<Rightarrow> (c # x) # xs))"

definition py_index :: "'a list \<Rightarrow> nat \<Rightarrow> py_exception + 'a" where
  \<comment> \<open>\<^verbatim>\<open>xs[i]\<close> for an index that is not negative\<close>
  "py_index xs i = (if i < length xs then Inr (xs ! i) else Inl (IndexError ''list index out of range''))"

section \<open>The library: urlsplit and urlparse\<close>

definition uses_params :: "string list" where
  "uses_params = ['''', ''ftp'', ''hdl'', ''prospero'', ''http'', ''imap'',
                  ''https'', ''shttp'', ''rtsp'', ''rtsps'', ''rtspu'', ''sip'',
                  ''sips'', ''mms'', ''sftp'', ''tel'']"

definition scheme_chars :: string where
  "scheme_chars = ''abcdefghijklmnopqrstuvwxyzABCDEFGHIJKLMNOPQRSTUVWXYZ0123456789+-.''"

definition lstrip_c0_control_or_space :: "string \<Rightarrow> string" where
  \<comment> \<open>\<^verbatim>\<open>url.lstrip(_WHATWG_C0_CONTROL_OR_SPACE)\<close>: the characters 0x00 to 0x20\<close>
  "lstrip_c0_control_or_space url = dropWhile (\<lambda>c. (of_char c :: nat) \<le> 32) url"

definition remove_unsafe :: "string \<Rightarrow> string" where
  \<comment> \<open>the loop over \<^verbatim>\<open>_UNSAFE_URL_BYTES_TO_REMOVE\<close>: tab, carriage return, newline\<close>
  "remove_unsafe url = remove_char (CHR 0x0A) (remove_char (CHR 0x0D) (remove_char (CHR 0x09) url))"

definition is_ascii_alpha :: "char \<Rightarrow> bool" where
  "is_ascii_alpha c = (c \<in> set ascii_upper \<or> c \<in> set ascii_lower)"

definition split_scheme :: "string \<Rightarrow> string \<times> string" where
  \<comment> \<open>the scheme, lower-cased, and the rest; the default scheme is the empty string\<close>
  "split_scheme url =
     (case str_find (CHR '':'') url of
        None \<Rightarrow> ([], url)
      | Some i \<Rightarrow>
          if 0 < i \<and> is_ascii_alpha (url ! 0) \<and> (\<forall>c \<in> set (take i url). c \<in> set scheme_chars)
          then (map lower_char (take i url), drop (i + 1) url)
          else ([], url))"

definition splitnetloc :: "string \<Rightarrow> nat \<Rightarrow> string \<times> string" where
  \<comment> \<open>\<^verbatim>\<open>_splitnetloc\<close>: cut at the earliest of the delimiters /, ? and # from \<open>start\<close> on\<close>
  "splitnetloc url start =
     (let rest = drop start url
      in (takeWhile (\<lambda>c. c \<notin> set ''/?#'') rest, dropWhile (\<lambda>c. c \<notin> set ''/?#'') rest))"

definition checknetloc :: "pylib \<Rightarrow> string \<Rightarrow> py_exception option" where
  \<comment> \<open>\<^verbatim>\<open>_checknetloc\<close>: \<open>Some e\<close> when it raises\<close>
  "checknetloc L netloc =
     (if netloc = [] \<or> isascii netloc then None
      else
        let n = remove_char (CHR ''?'') (remove_char (CHR ''#'')
                  (remove_char (CHR '':'') (remove_char (CHR ''@'') netloc)));
            netloc2 = normalize_nfkc L n
        in if n = netloc2 then None
           else if \<exists>c \<in> set ''/?#@:''. c \<in> set netloc2
           then Some (ValueError (''netloc '' @ [CHR 0x27] @ netloc @ [CHR 0x27] @
                        '' contains invalid characters under NFKC normalization''))
           else None)"

definition split_authority :: "pylib \<Rightarrow> string \<Rightarrow> py_exception + (string \<times> string)" where
  \<comment> \<open>the \<^verbatim>\<open>if url[:2] == '//'\<close> block of \<^verbatim>\<open>urlsplit\<close>\<close>
  "split_authority L url =
     (if take 2 url = ''//'' then
        (let (netloc, rest) = splitnetloc url 2 in
         if (CHR ''['' \<in> set netloc \<and> CHR '']'' \<notin> set netloc) \<or>
            (CHR '']'' \<in> set netloc \<and> CHR ''['' \<notin> set netloc)
         then Inl (ValueError ''Invalid IPv6 URL'')
         else if CHR ''['' \<in> set netloc \<and> CHR '']'' \<in> set netloc then
           (let bracketed_host =
                  fst (str_partition (CHR '']'') (snd (snd (str_partition (CHR ''['') netloc))))
            in case check_bracketed_host L bracketed_host of
                 Some m \<Rightarrow> Inl (ValueError m)
               | None \<Rightarrow> Inr (netloc, rest))
         else Inr (netloc, rest))
      else Inr ([], url))"

definition split_once :: "char \<Rightarrow> string \<Rightarrow> string \<times> string" where
  \<comment> \<open>\<^verbatim>\<open>if c in url: url, part = url.split(c, 1)\<close>, the part empty otherwise\<close>
  "split_once c url =
     (if c \<in> set url then (takeWhile (\<lambda>x. x \<noteq> c) url, drop 1 (dropWhile (\<lambda>x. x \<noteq> c) url))
      else (url, []))"

definition urlsplit ::
  "pylib \<Rightarrow> string \<Rightarrow> py_exception + (string \<times> string \<times> string \<times> string \<times> string)" where
  "urlsplit L url =
     (case split_scheme (remove_unsafe (lstrip_c0_control_or_space url)) of
        (sch, url1) \<Rightarrow>
          (case split_authority L url1 of
             Inl e \<Rightarrow> Inl e
           | Inr (nloc, url2) \<Rightarrow>
               (case split_once (CHR ''#'') url2 of
                  (url3, frag) \<Rightarrow>
                    (case split_once (CHR ''?'') url3 of
                       (url4, qry) \<Rightarrow>
                         (case checknetloc L nloc of
                            Some e \<Rightarrow> Inl e
                          | None \<Rightarrow> Inr (sch, nloc, url4, qry, frag))))))"

definition splitparams :: "string \<Rightarrow> string \<times> string" where
  \<comment> \<open>\<^verbatim>\<open>_splitparams\<close>, called only when the path contains a semicolon\<close>
  "splitparams url =
     (case (case str_rfind (CHR ''/'') url of
              Some j \<Rightarrow> str_find_from (CHR '';'') url j
            | None \<Rightarrow> str_find (CHR '';'') url) of
        None \<Rightarrow> (url, [])
      | Some i \<Rightarrow> (take i url, drop (i + 1) url))"

record parse_result =
  scheme :: string
  netloc :: string
  path :: string
  params :: string
  query :: string
  fragment :: string

definition urlparse :: "pylib \<Rightarrow> string \<Rightarrow> py_exception + parse_result" where
  "urlparse L url =
     (case urlsplit L url of
        Inl e \<Rightarrow> Inl e
      | Inr (sch, nloc, url, qry, frag) \<Rightarrow>
          let (url, prms) =
                (if sch \<in> set uses_params \<and> CHR '';'' \<in> set url then splitparams url
                 else (url, []))
          in Inr \<lparr>scheme = sch, netloc = nloc, path = url, params = prms,
                   query = qry, fragment = frag\<rparr>)"

definition hostinfo :: "string \<Rightarrow> string" where
  \<comment> \<open>the first component of \<^verbatim>\<open>_hostinfo\<close>\<close>
  "hostinfo nl =
     (let (_, _, hinfo) = str_rpartition (CHR ''@'') nl;
          (_, have_open_br, bracketed) = str_partition (CHR ''['') hinfo
      in if have_open_br then fst (str_partition (CHR '']'') bracketed)
         else fst (str_partition (CHR '':'') hinfo))"

definition hostname :: "pylib \<Rightarrow> parse_result \<Rightarrow> string option" where
  "hostname L parsed =
     (let host = hostinfo (netloc parsed)
      in if host = [] then None
         else let (host, percent, zone) = str_partition (CHR ''%'') host
              in Some (lower L host @ (if percent then ''%'' else []) @ zone))"

section \<open>The library: parse_qs\<close>

definition unquote :: "pylib \<Rightarrow> string \<Rightarrow> string" where
  "unquote L string = (if CHR ''%'' \<notin> set string then string else unquote_escapes L string)"

definition unquote_plus :: "pylib \<Rightarrow> string \<Rightarrow> string" where
  "unquote_plus L string = unquote L (map (\<lambda>c. if c = CHR ''+'' then CHR '' '' else c) string)"

fun parse_qsl_fields :: "pylib \<Rightarrow> string list \<Rightarrow> (string \<times> string) list" where
  \<comment> \<open>the loop of \<^verbatim>\<open>parse_qsl\<close> over the fields, with \<^verbatim>\<open>keep_blank_values\<close> and
      \<^verbatim>\<open>strict_parsing\<close> false\<close>
  "parse_qsl_fields L [] = []"
| "parse_qsl_fields L (name_value # nvs) =
     (if name_value \<noteq> [] then
        (let (name, has_eq, val) = str_partition (CHR ''='') name_value
         in if val \<noteq> [] then (unquote_plus L name, unquote_plus L val) # parse_qsl_fields L nvs
            else parse_qsl_fields L nvs)
      else parse_qsl_fields L nvs)"

definition parse_qsl :: "pylib \<Rightarrow> string \<Rightarrow> (string \<times> string) list" where
  "parse_qsl L qs = (if qs = [] then [] else parse_qsl_fields L (py_split (CHR ''&'') qs))"

fun parse_qs_pairs ::
  "(string \<times> string list) list \<Rightarrow> (string \<times> string) list \<Rightarrow> (string \<times> string list) list" where
  \<comment> \<open>the loop of \<^verbatim>\<open>parse_qs\<close> that fills the dictionary\<close>
  "parse_qs_pairs parsed_result [] = parsed_result"
| "parse_qs_pairs parsed_result ((name, val) # pairs) =
     (case map_of parsed_result name of
        Some vals \<Rightarrow> parse_qs_pairs (AList.update name (vals @ [val]) parsed_result) pairs
      | None \<Rightarrow> parse_qs_pairs (parsed_result @ [(name, [val])]) pairs)"

definition parse_qs :: "pylib \<Rightarrow> string \<Rightarrow> (string \<times> string list) list" where
  "parse_qs L qs = parse_qs_pairs [] (parse_qsl L qs)"

definition py_getitem :: "(string \<times> 'v) list \<Rightarrow> string \<Rightarrow> py_exception + 'v" where
  \<comment> \<open>\<^verbatim>\<open>d[k]\<close> on a dictionary\<close>
  "py_getitem d k = (case map_of d k of None \<Rightarrow> Inl (KeyError k) | Some v \<Rightarrow> Inr v)"

section \<open>The script\<close>

definition startswith :: "string \<Rightarrow> string \<Rightarrow> bool" where
  "startswith s p = (take (length p) s = p)"

definition extract_video_id :: "pylib \<Rightarrow> string \<Rightarrow> py_exception + string option" where
  "extract_video_id L url =
     (case urlparse L url of
        Inl e \<Rightarrow> Inl e
      | Inr parsed \<Rightarrow>
          if hostname L parsed \<in> set [Some ''youtu.be'', Some ''www.youtu.be'']
          then Inr (Some (drop 1 (path parsed)))
          else if hostname L parsed \<in> set [Some ''youtube.com'', Some ''www.youtube.com'']
          then
            (if path parsed = ''/watch''
             then (case py_getitem (parse_qs L (query parsed)) ''v'' of
                     Inl e \<Rightarrow> Inl e
                   | Inr vals \<Rightarrow> map_sum id Some (py_index vals 0))
             else if startswith (path parsed) ''/embed/''
             then map_sum id Some (py_index (py_split (CHR ''/'') (path parsed)) 2)
             else if startswith (path parsed) ''/v/''
             then map_sum id Some (py_index (py_split (CHR ''/'') (path parsed)) 2)
             else Inr None)
          else Inr None)"

definition failure :: "py_exception \<Rightarrow> 'seg pydict" where
  \<comment> \<open>the dictionary of the \<^verbatim>\<open>except Exception as e\<close> clause\<close>
  "failure e = [(''success'', PBool False), (''error'', PStr (py_str e))]"

definition invalid_url :: "'seg pydict" where
  "invalid_url = [(''error'', PStr ''Invalid YouTube URL'')]"

definition call_service ::
  "'seg service \<Rightarrow> string \<Rightarrow> 'seg world \<Rightarrow> (py_exception + 'seg list) \<times> 'seg world" where
  \<comment> \<open>\<^verbatim>\<open>YouTubeTranscriptApi.get_transcript(video_id)\<close>: the call is recorded, and the
      service answers with a transcript or raises\<close>
  "call_service service video_id w =
     (service video_id, w\<lparr>service_calls := service_calls w @ [video_id]\<rparr>)"

definition get_transcript ::
  "pylib \<Rightarrow> 'seg service \<Rightarrow> string \<Rightarrow> 'seg world \<Rightarrow> 'seg pydict \<times> 'seg world" where
  \<comment> \<open>\<^verbatim>\<open>not video_id\<close> is true for \<^verbatim>\<open>None\<close> and for the empty string\<close>
  "get_transcript L service video_url w =
     (case extract_video_id L video_url of
        Inl e \<Rightarrow> (failure e, w)
      | Inr video_id \<Rightarrow>
          (case video_id of
             None \<Rightarrow> (invalid_url, w)
           | Some vid \<Rightarrow>
               if vid = [] then (invalid_url, w)
               else
                 (case call_service service vid w of
                    (Inl e, w') \<Rightarrow> (failure e, w')
                  | (Inr transcript, w') \<Rightarrow>
                      ([(''success'', PBool True), (''transcript'', PList transcript),
                        (''video_id'', PStr vid)], w'))))"

definition main :: "pylib \<Rightarrow> 'seg service \<Rightarrow> string list \<Rightarrow> 'seg world \<Rightarrow> int \<times> 'seg world" where
  \<comment> \<open>the entry point on \<^verbatim>\<open>sys.argv\<close>: the exit code and the world afterwards\<close>
  "main L service argv w =
     (if length argv \<noteq> 2
      then (1, w\<lparr>stdout := stdout w @ [[(''error'', PStr ''Usage: get_transcript.py <youtube_url>'')]]\<rparr>)
      else
        (case get_transcript L service (argv ! 1) w of
           (result, w') \<Rightarrow> (0, w'\<lparr>stdout := stdout w' @ [result]\<rparr>)))"

section \<open>Observations and example values\<close>

definition service_answer ::
  "pylib \<Rightarrow> 'seg service \<Rightarrow> string \<Rightarrow> 'seg world \<Rightarrow> (py_exception + 'seg list) option" where
  \<comment> \<open>what the service answers during the run of \<open>get_transcript\<close> on a URL: \<open>None\<close> when
      the run does not ask it\<close>
  "service_answer L service url w =
     (case drop (length (service_calls w)) (service_calls (snd (get_transcript L service url w))) of
        [] \<Rightarrow> None
      | vid # _ \<Rightarrow> Some (service vid))"

definition query_fields :: "string \<Rightarrow> (string \<times> string) list" where
  \<comment> \<open>the fields of a query string as they are written: the fields are separated by
      ampersands, and each has a name and, after its first equals sign, a value, which
      may be empty\<close>
  "query_fields qs =
     map (\<lambda>field. (fst (str_partition (CHR ''='') field),
                    snd (snd (str_partition (CHR ''='') field))))
       (py_split (CHR ''&'') qs)"

definition param_values :: "pylib \<Rightarrow> string \<Rightarrow> string \<Rightarrow> string list" where
  \<comment> \<open>all the values that a query string gives to a parameter, in order and as written,
      the empty ones included; the name of a field is compared after decoding\<close>
  "param_values L name qs =
     map snd (filter (\<lambda>nv. unquote_plus L (fst nv) = name) (query_fields qs))"

definition plain_lib :: pylib where
  \<comment> \<open>an instance of the library parameters for the examples, whose URLs are ASCII
      without brackets or percent signs, so that no field is ever consulted\<close>
  "plain_lib = \<lparr>lower_unicode = (\<lambda>s. s), normalize_nfkc = (\<lambda>s. s),
                 check_bracketed_host = (\<lambda>h. None), unquote_escapes = (\<lambda>s. s)\<rparr>"

definition world0 :: "string world" where
  "world0 = \<lparr>service_calls = [], stdout = []\<rparr>"

definition hi_service :: "string service" where
  \<comment> \<open>a service that has one segment for every video\<close>
  "hi_service vid = Inr [''hi'']"

definition no_captions_service :: "string service" where
  \<comment> \<open>a service that fails for every video\<close>
  "no_captions_service vid = Inl (Raised ''no captions'')"

section \<open>Evaluating the parser\<close>

lemmas url_defs =
  extract_video_id_def urlparse_def urlsplit_def split_scheme_def remove_unsafe_def
  remove_char_def lstrip_c0_control_or_space_def str_find_def scheme_chars_def
  is_ascii_alpha_def ascii_upper_def ascii_lower_def lower_char_def split_authority_def
  splitnetloc_def split_once_def checknetloc_def isascii_def uses_params_def hostname_def
  hostinfo_def str_partition_def str_rpartition_def lower_def parse_qs_def parse_qsl_def
  py_getitem_def py_index_def startswith_def unquote_plus_def unquote_def splitparams_def
  str_rfind_def str_find_from_def

lemma extract_watch_abc123:
  "extract_video_id L ''https://www.youtube.com/watch?v=abc123'' = Inr (Some ''abc123'')"
  by (simp add: url_defs)

lemma extract_watch_no_query:
  "extract_video_id L ''https://www.youtube.com/watch'' = Inl (KeyError ''v'')"
  by (simp add: url_defs)

lemma extract_short_empty: "extract_video_id L ''https://youtu.be/'' = Inr (Some [])"
  by (simp add: url_defs)

lemma extract_short_extra:
  "extract_video_id L ''https://youtu.be/abc/extra'' = Inr (Some ''abc/extra'')"
  by (simp add: url_defs)

lemma extract_embed_extra:
  "extract_video_id L ''https://youtube.com/embed/abc/extra'' = Inr (Some ''abc'')"
  by (simp add: url_defs)

lemma extract_short_fragment: "extract_video_id L ''https://youtu.be/a#b'' = Inr (Some ''a'')"
  by (simp add: url_defs)

lemma extract_short_params: "extract_video_id L ''https://youtu.be/a;b'' = Inr (Some ''a'')"
  by (simp add: url_defs)

lemma extract_short_newline:
  "extract_video_id L (''https://youtu.be/a'' @ [CHR 0x0A] @ ''b'') = Inr (Some ''ab'')"
  by (simp add: url_defs)

lemma extract_watch_ampersand:
  "extract_video_id L ''https://www.youtube.com/watch?v=a&b'' = Inr (Some ''a'')"
  by (simp add: url_defs)

lemma extract_watch_plus:
  "extract_video_id L ''https://www.youtube.com/watch?v=a+b'' = Inr (Some ''a b'')"
  by (simp add: url_defs)

lemma urlparse_vimeo:
  "urlparse L ''https://vimeo.com/123'' =
     Inr \<lparr>scheme = ''https'', netloc = ''vimeo.com'', path = ''/123'', params = [],
          query = [], fragment = []\<rparr>"
  by (simp add: url_defs)

lemma hostname_vimeo:
  "hostname L \<lparr>scheme = ''https'', netloc = ''vimeo.com'', path = ''/123'', params = [],
       query = [], fragment = []\<rparr> = Some ''vimeo.com''"
  by (simp add: url_defs)

lemma urlparse_feed:
  "urlparse L ''https://www.youtube.com/feed'' =
     Inr \<lparr>scheme = ''https'', netloc = ''www.youtube.com'', path = ''/feed'', params = [],
          query = [], fragment = []\<rparr>"
  by (simp add: url_defs)

lemma hostname_feed:
  "hostname L \<lparr>scheme = ''https'', netloc = ''www.youtube.com'', path = ''/feed'', params = [],
       query = [], fragment = []\<rparr> = Some ''www.youtube.com''"
  by (simp add: url_defs)

lemma urlparse_watch_twice:
  "urlparse L ''https://www.youtube.com/watch?v=X&v=Y'' =
     Inr \<lparr>scheme = ''https'', netloc = ''www.youtube.com'', path = ''/watch'', params = [],
          query = ''v=X&v=Y'', fragment = []\<rparr>"
  by (simp add: url_defs)

lemma hostname_watch_twice:
  "hostname L \<lparr>scheme = ''https'', netloc = ''www.youtube.com'', path = ''/watch'', params = [],
       query = ''v=X&v=Y'', fragment = []\<rparr> = Some ''www.youtube.com''"
  by (simp add: url_defs)

lemma param_values_twice: "param_values L ''v'' ''v=X&v=Y'' = [''X'', ''Y'']"
  by (simp add: param_values_def query_fields_def url_defs)

lemma unquote_plus_X: "unquote_plus L ''X'' = ''X''"
  by (simp add: url_defs)

lemma urlparse_watch_blank:
  "urlparse L ''https://www.youtube.com/watch?v=&v=Y'' =
     Inr \<lparr>scheme = ''https'', netloc = ''www.youtube.com'', path = ''/watch'', params = [],
          query = ''v=&v=Y'', fragment = []\<rparr>"
  by (simp add: url_defs)

lemma extract_watch_blank:
  "extract_video_id L ''https://www.youtube.com/watch?v=&v=Y'' = Inr (Some ''Y'')"
  by (simp add: url_defs)

lemma param_values_blank: "param_values L ''v'' ''v=&v=Y'' = ['''', ''Y'']"
  by (simp add: param_values_def query_fields_def url_defs)

lemma urlparse_stray_bracket:
  "urlparse L ''https://vimeo.com]/123'' = Inl (ValueError ''Invalid IPv6 URL'')"
  by (simp add: url_defs)

lemma extract_stray_bracket:
  "extract_video_id L ''https://vimeo.com]/123'' = Inl (ValueError ''Invalid IPv6 URL'')"
  by (simp add: url_defs)

section \<open>The cases of the fetcher\<close>

lemma get_transcript_cases:
  "get_transcript L service url w =
     (case extract_video_id L url of
        Inl e \<Rightarrow> (failure e, w)
      | Inr None \<Rightarrow> (invalid_url, w)
      | Inr (Some vid) \<Rightarrow>
          if vid = [] then (invalid_url, w)
          else (case service vid of
                  Inl e \<Rightarrow> (failure e, w\<lparr>service_calls := service_calls w @ [vid]\<rparr>)
                | Inr t \<Rightarrow>
                    ([(''success'', PBool True), (''transcript'', PList t),
                      (''video_id'', PStr vid)],
                     w\<lparr>service_calls := service_calls w @ [vid]\<rparr>)))"
  by (simp add: get_transcript_def call_service_def split: sum.splits option.splits)

lemma get_transcript_stdout: "stdout (snd (get_transcript L service url w)) = stdout w"
  by (simp add: get_transcript_cases split: sum.splits option.splits)

lemma service_answer_cases:
  "service_answer L service url w =
     (case extract_video_id L url of
        Inr (Some vid) \<Rightarrow> if vid = [] then None else Some (service vid)
      | _ \<Rightarrow> None)"
  by (simp add: service_answer_def get_transcript_cases split: sum.splits option.splits)

section \<open>The recognized URL shapes\<close>

lemma py_split_no_sep: "sep \<notin> set s \<Longrightarrow> py_split sep s = [s]"
  by (induction s) auto

lemma replace_plus_id:
  "CHR ''+'' \<notin> set s \<Longrightarrow> map (\<lambda>c. if c = CHR ''+'' then CHR '' '' else c) s = s"
  by (induction s) auto

lemma filter_neq_id: "c \<notin> set s \<Longrightarrow> filter (\<lambda>x. x \<noteq> c) s = s"
  by (induction s) auto

lemma extract_short:
  assumes "CHR ''?'' \<notin> set X" "CHR ''#'' \<notin> set X" "CHR '';'' \<notin> set X"
    "CHR 0x09 \<notin> set X" "CHR 0x0A \<notin> set X" "CHR 0x0D \<notin> set X"
  shows "extract_video_id L (''https://youtu.be/'' @ X) = Inr (Some X)"
  using assms by (simp add: url_defs filter_neq_id)

lemma extract_embed:
  assumes "CHR ''/'' \<notin> set X" "CHR ''?'' \<notin> set X" "CHR ''#'' \<notin> set X"
    "CHR '';'' \<notin> set X" "CHR 0x09 \<notin> set X" "CHR 0x0A \<notin> set X" "CHR 0x0D \<notin> set X"
  shows "extract_video_id L (''https://youtube.com/embed/'' @ X) = Inr (Some X)"
  using assms by (simp add: url_defs filter_neq_id py_split_no_sep)

lemma extract_v:
  assumes "CHR ''/'' \<notin> set X" "CHR ''?'' \<notin> set X" "CHR ''#'' \<notin> set X"
    "CHR '';'' \<notin> set X" "CHR 0x09 \<notin> set X" "CHR 0x0A \<notin> set X" "CHR 0x0D \<notin> set X"
  shows "extract_video_id L (''https://youtube.com/v/'' @ X) = Inr (Some X)"
  using assms by (simp add: url_defs filter_neq_id py_split_no_sep)

lemma extract_watch:
  assumes "X \<noteq> []" "CHR ''#'' \<notin> set X" "CHR ''&'' \<notin> set X" "CHR ''%'' \<notin> set X"
    "CHR ''+'' \<notin> set X" "CHR 0x09 \<notin> set X" "CHR 0x0A \<notin> set X" "CHR 0x0D \<notin> set X"
  shows "extract_video_id L (''https://www.youtube.com/watch?v='' @ X) = Inr (Some X)"
  using assms by (simp add: url_defs filter_neq_id py_split_no_sep replace_plus_id)

text \<open>
  C1, as amended. For every identifier \<open>X\<close> that is not empty and contains none of the
  characters slash, question mark, hash, tab, line feed and carriage return, extraction
  yields \<open>X\<close> on \<^verbatim>\<open>https://youtu.be/X\<close>, \<^verbatim>\<open>https://youtube.com/embed/X\<close> and
  \<^verbatim>\<open>https://youtube.com/v/X\<close> when \<open>X\<close> has no semicolon either, and on
  \<^verbatim>\<open>https://www.youtube.com/watch?v=X\<close> when \<open>X\<close> has none of ampersand, percent and plus
  either. (The parser cuts a fragment at the hash and parameters at the semicolon, drops
  tabs and line ends, and the query decoder splits at the ampersand, turns a plus into a
  space and decodes percent escapes.)
\<close>

theorem extract_recognized_shapes:
  assumes "X \<noteq> []"
    and "set X \<inter> {CHR ''/'', CHR ''?'', CHR ''#'', CHR 0x09, CHR 0x0A, CHR 0x0D} = {}"
  shows "(set X \<inter> {CHR ''&'', CHR ''%'', CHR ''+''} = {} \<longrightarrow>
            extract_video_id L (''https://www.youtube.com/watch?v='' @ X) = Inr (Some X))
       \<and> (CHR '';'' \<notin> set X \<longrightarrow>
            extract_video_id L (''https://youtu.be/'' @ X) = Inr (Some X)
          \<and> extract_video_id L (''https://youtube.com/embed/'' @ X) = Inr (Some X)
          \<and> extract_video_id L (''https://youtube.com/v/'' @ X) = Inr (Some X))"
proof -
  from assms(2) have safe: "CHR ''/'' \<notin> set X" "CHR ''?'' \<notin> set X" "CHR ''#'' \<notin> set X"
    "CHR 0x09 \<notin> set X" "CHR 0x0A \<notin> set X" "CHR 0x0D \<notin> set X"
    by auto
  have watch: "extract_video_id L (''https://www.youtube.com/watch?v='' @ X) = Inr (Some X)"
    if "set X \<inter> {CHR ''&'', CHR ''%'', CHR ''+''} = {}"
  proof -
    from that have "CHR ''&'' \<notin> set X" "CHR ''%'' \<notin> set X" "CHR ''+'' \<notin> set X"
      by auto
    with assms(1) safe show ?thesis
      by (intro extract_watch)
  qed
  have paths: "extract_video_id L (''https://youtu.be/'' @ X) = Inr (Some X)
          \<and> extract_video_id L (''https://youtube.com/embed/'' @ X) = Inr (Some X)
          \<and> extract_video_id L (''https://youtube.com/v/'' @ X) = Inr (Some X)"
    if "CHR '';'' \<notin> set X"
    using that safe by (intro conjI extract_short extract_embed extract_v)
  from watch paths show ?thesis by blast
qed

theorem extract_recognized_shapes_witness:
  "''abc123'' \<noteq> []
   \<and> set ''abc123'' \<inter> {CHR ''/'', CHR ''?'', CHR ''#'', CHR 0x09, CHR 0x0A, CHR 0x0D} = {}
   \<and> set ''abc123'' \<inter> {CHR ''&'', CHR ''%'', CHR ''+''} = {}
   \<and> CHR '';'' \<notin> set ''abc123''
   \<and> extract_video_id plain_lib ''https://www.youtube.com/watch?v=abc123'' = Inr (Some ''abc123'')
   \<and> extract_video_id plain_lib ''https://youtu.be/abc123'' = Inr (Some ''abc123'')
   \<and> extract_video_id plain_lib ''https://youtube.com/embed/abc123'' = Inr (Some ''abc123'')
   \<and> extract_video_id plain_lib ''https://youtube.com/v/abc123'' = Inr (Some ''abc123'')"
proof -
  have ne: "''abc123'' \<noteq> []"
    by simp
  have safe: "set ''abc123'' \<inter> {CHR ''/'', CHR ''?'', CHR ''#'', CHR 0x09, CHR 0x0A, CHR 0x0D} = {}"
    by simp
  have more: "set ''abc123'' \<inter> {CHR ''&'', CHR ''%'', CHR ''+''} = {}" "CHR '';'' \<notin> set ''abc123''"
    by simp_all
  from extract_recognized_shapes [OF ne safe, of plain_lib] ne safe more show ?thesis
    by simp
qed

theorem extract_recognized_shapes_counterexample:
  "''a#b'' \<noteq> [] \<and> CHR ''/'' \<notin> set ''a#b'' \<and> CHR ''?'' \<notin> set ''a#b''
   \<and> extract_video_id plain_lib (''https://youtu.be/'' @ ''a#b'') = Inr (Some ''a'')
   \<and> extract_video_id plain_lib (''https://youtu.be/'' @ ''a#b'') \<noteq> Inr (Some ''a#b'')"
  by (simp add: extract_short_fragment)

text \<open>
  The other characters left out above are left out for cause.
\<close>

lemma extract_other_delimiters:
  "extract_video_id L ''https://youtu.be/a;b'' \<noteq> Inr (Some ''a;b'')
   \<and> extract_video_id L (''https://youtu.be/a'' @ [CHR 0x0A] @ ''b'') \<noteq> Inr (Some (''a'' @ [CHR 0x0A] @ ''b''))
   \<and> extract_video_id L ''https://www.youtube.com/watch?v=a&b'' \<noteq> Inr (Some ''a&b'')
   \<and> extract_video_id L ''https://www.youtube.com/watch?v=a+b'' \<noteq> Inr (Some ''a+b'')"
  using extract_short_newline [of L]
  by (simp add: extract_short_params extract_watch_ampersand extract_watch_plus)

section \<open>A watch URL without a query\<close>

text \<open>
  C2. On \<^verbatim>\<open>https://www.youtube.com/watch\<close>, which has no query, the lookup of \<^verbatim>\<open>v\<close> raises
  \<^verbatim>\<open>KeyError\<close> inside \<open>extract_video_id\<close>; \<open>get_transcript\<close> catches it and returns a
  failure object, which the program prints before it exits with code 0. Nothing is left
  unhandled.
\<close>

theorem watch_without_v_is_handled:
  "extract_video_id L ''https://www.youtube.com/watch'' = Inl (KeyError ''v'')
   \<and> get_transcript L service ''https://www.youtube.com/watch'' w =
       ([(''success'', PBool False), (''error'', PStr [CHR 0x27, CHR ''v'', CHR 0x27])], w)
   \<and> main L service [prog, ''https://www.youtube.com/watch''] w =
       (0, w\<lparr>stdout := stdout w @
          [[(''success'', PBool False), (''error'', PStr [CHR 0x27, CHR ''v'', CHR 0x27])]]\<rparr>)"
  by (simp add: main_def get_transcript_cases extract_watch_no_query failure_def py_repr_def)

section \<open>Short links\<close>

text \<open>
  When the parsed URL has a host name, its path is empty or starts with a slash, so the
  slice \<^verbatim>\<open>parsed.path[1:]\<close> of the branch for \<^verbatim>\<open>youtu.be\<close> removes that slash and nothing
  else.
\<close>

lemma takeWhile_neq_id: "c \<notin> set s \<Longrightarrow> takeWhile (\<lambda>x. x \<noteq> c) s = s"
  by (induction s) auto

lemma split_once_fst: "fst (split_once c s) = takeWhile (\<lambda>x. x \<noteq> c) s"
  by (simp add: split_once_def takeWhile_neq_id)

lemma splitparams_fst: "\<exists>n. fst (splitparams s) = take n s"
proof (cases "case str_rfind (CHR ''/'') s of
              Some j \<Rightarrow> str_find_from (CHR '';'') s j
            | None \<Rightarrow> str_find (CHR '';'') s")
  case None
  then have "fst (splitparams s) = take (length s) s"
    by (simp add: splitparams_def)
  then show ?thesis ..
next
  case (Some i)
  then have "fst (splitparams s) = take i s"
    by (simp add: splitparams_def)
  then show ?thesis ..
qed

lemma split_authority_rest:
  assumes "split_authority L u = Inr (nl, rest)" and "nl \<noteq> []"
  shows "rest = [] \<or> hd rest \<in> set ''/?#''"
proof -
  from assms have "rest = dropWhile (\<lambda>c. c \<notin> set ''/?#'') (drop 2 u)"
    by (auto simp add: split_authority_def splitnetloc_def Let_def split: if_splits option.splits)
  then show ?thesis
    using hd_dropWhile [of "\<lambda>c. c \<notin> set ''/?#''" "drop 2 u"] by auto
qed

lemma rooted_cut:
  assumes "rest = [] \<or> hd rest \<in> set ''/?#''"
  shows "take n (takeWhile (\<lambda>x. x \<noteq> CHR ''?'') (takeWhile (\<lambda>x. x \<noteq> CHR ''#'') rest)) = []
       \<or> hd (take n (takeWhile (\<lambda>x. x \<noteq> CHR ''?'') (takeWhile (\<lambda>x. x \<noteq> CHR ''#'') rest))) = CHR ''/''"
  using assms by (cases rest; cases n) auto

lemma path_after_netloc:
  assumes "urlparse L url = Inr parsed" and "netloc parsed \<noteq> []"
  shows "path parsed = [] \<or> hd (path parsed) = CHR ''/''"
proof -
  from assms(1) obtain sch nl u4 qry frag where
    sp: "urlsplit L url = Inr (sch, nl, u4, qry, frag)"
    and nl: "netloc parsed = nl"
    and pth: "path parsed = u4 \<or> path parsed = fst (splitparams u4)"
    by (auto simp add: urlparse_def split: sum.splits prod.splits if_splits)
  from sp obtain u1 rest where
    au: "split_authority L u1 = Inr (nl, rest)"
    and u4: "u4 = fst (split_once (CHR ''?'') (fst (split_once (CHR ''#'') rest)))"
    by (auto simp add: urlsplit_def split: sum.splits prod.splits option.splits)
  from au assms(2) nl have r: "rest = [] \<or> hd rest \<in> set ''/?#''"
    by (auto dest: split_authority_rest)
  obtain n where "path parsed = take n u4"
    using pth splitparams_fst [of u4] by (metis take_all order_refl)
  with u4 rooted_cut [OF r, of n] show ?thesis
    by (simp add: split_once_fst)
qed

lemma hostname_needs_netloc: "hostname L parsed = Some h \<Longrightarrow> netloc parsed \<noteq> []"
  by (auto simp add: hostname_def hostinfo_def str_rpartition_def str_partition_def Let_def
      split: if_splits)

lemma short_link_path_tail:
  "urlparse L url = Inr parsed \<Longrightarrow>
   hostname L parsed \<in> set [Some ''youtu.be'', Some ''www.youtu.be''] \<Longrightarrow>
   extract_video_id L url = Inr (Some (drop 1 (path parsed)))"
  by (simp add: extract_video_id_def)

text \<open>
  C3. For the host \<^verbatim>\<open>youtu.be\<close> the code returns the whole path after its first character,
  so the segments after the identifier are kept: \<^verbatim>\<open>https://youtu.be/abc/extra\<close> gives
  \<^verbatim>\<open>abc/extra\<close>, where the claim says \<^verbatim>\<open>abc\<close>. The branch for \<^verbatim>\<open>/embed/\<close> does drop them.
\<close>

theorem short_link_keeps_extra_segments:
  "extract_video_id L ''https://youtu.be/abc/extra'' = Inr (Some ''abc/extra'')
   \<and> extract_video_id L ''https://youtube.com/embed/abc/extra'' = Inr (Some ''abc'')"
  by (simp add: extract_short_extra extract_embed_extra)

section \<open>Unrecognized URLs\<close>

text \<open>
  A string that \<open>urlparse\<close> rejects has no parsed host at all: the exception of the parser
  leaves \<open>extract_video_id\<close> and is caught in \<open>get_transcript\<close>, which reports it as a
  failure with the message of the parser.
\<close>

lemma rejected_url_is_failure:
  "urlparse L url = Inl e \<Longrightarrow>
   extract_video_id L url = Inl e \<and> get_transcript L service url w = (failure e, w)"
  by (simp add: extract_video_id_def get_transcript_cases)

text \<open>
  C6, as amended. For a URL that \<open>urlparse\<close> parses without raising, if its host name is
  none of \<^verbatim>\<open>youtu.be\<close>, \<^verbatim>\<open>www.youtu.be\<close>, \<^verbatim>\<open>youtube.com\<close>, \<^verbatim>\<open>www.youtube.com\<close>, or it is one
  of the last two and the path is neither \<^verbatim>\<open>/watch\<close> nor starts with \<^verbatim>\<open>/embed/\<close> or \<^verbatim>\<open>/v/\<close>,
  then extraction yields \<^verbatim>\<open>None\<close>, \<open>get_transcript\<close> returns the invalid-URL object without
  asking the service, and the program prints that object and exits with code 0.
  Without the condition on the parser the statement fails: \<^verbatim>\<open>https://vimeo.com]/123\<close> has
  a closing bracket without an opening one in its network location, the parser raises
  \<^verbatim>\<open>ValueError\<close>, and the result is a failure object with the message
  \<^verbatim>\<open>Invalid IPv6 URL\<close>.
\<close>

theorem unrecognized_url_is_invalid:
  assumes "urlparse L url = Inr parsed"
    and "hostname L parsed \<notin> set [Some ''youtu.be'', Some ''www.youtu.be'',
                                   Some ''youtube.com'', Some ''www.youtube.com'']
         \<or> (hostname L parsed \<in> set [Some ''youtube.com'', Some ''www.youtube.com'']
            \<and> path parsed \<noteq> ''/watch''
            \<and> \<not> startswith (path parsed) ''/embed/''
            \<and> \<not> startswith (path parsed) ''/v/'')"
  shows "extract_video_id L url = Inr None
     \<and> get_transcript L service url w = ([(''error'', PStr ''Invalid YouTube URL'')], w)
     \<and> main L service [prog, url] w =
         (0, w\<lparr>stdout := stdout w @ [[(''error'', PStr ''Invalid YouTube URL'')]]\<rparr>)"
proof -
  from assms have "extract_video_id L url = Inr None"
    by (auto simp add: extract_video_id_def)
  then show ?thesis
    by (simp add: get_transcript_cases main_def invalid_url_def)
qed

theorem unrecognized_url_is_invalid_witness:
  "urlparse plain_lib ''https://vimeo.com/123'' =
     Inr \<lparr>scheme = ''https'', netloc = ''vimeo.com'', path = ''/123'', params = [],
          query = [], fragment = []\<rparr>
   \<and> hostname plain_lib \<lparr>scheme = ''https'', netloc = ''vimeo.com'', path = ''/123'',
        params = [], query = [], fragment = []\<rparr> = Some ''vimeo.com''
   \<and> extract_video_id plain_lib ''https://vimeo.com/123'' = Inr None
   \<and> get_transcript plain_lib hi_service ''https://vimeo.com/123'' world0 =
        ([(''error'', PStr ''Invalid YouTube URL'')], world0)
   \<and> urlparse plain_lib ''https://www.youtube.com/feed'' =
     Inr \<lparr>scheme = ''https'', netloc = ''www.youtube.com'', path = ''/feed'', params = [],
          query = [], fragment = []\<rparr>
   \<and> hostname plain_lib \<lparr>scheme = ''https'', netloc = ''www.youtube.com'', path = ''/feed'',
        params = [], query = [], fragment = []\<rparr> = Some ''www.youtube.com''
   \<and> extract_video_id plain_lib ''https://www.youtube.com/feed'' = Inr None
   \<and> get_transcript plain_lib hi_service ''https://www.youtube.com/feed'' world0 =
        ([(''error'', PStr ''Invalid YouTube URL'')], world0)"
proof -
  note p1 = urlparse_vimeo [of plain_lib] and h1 = hostname_vimeo [of plain_lib]
  note p2 = urlparse_feed [of plain_lib] and h2 = hostname_feed [of plain_lib]
  from unrecognized_url_is_invalid [OF p1, of hi_service world0]
    unrecognized_url_is_invalid [OF p2, of hi_service world0] p1 h1 p2 h2
  show ?thesis
    by (simp add: startswith_def)
qed

theorem unrecognized_url_is_invalid_counterexample:
  "urlparse plain_lib ''https://vimeo.com]/123'' = Inl (ValueError ''Invalid IPv6 URL'')
   \<and> extract_video_id plain_lib ''https://vimeo.com]/123'' \<noteq> Inr None
   \<and> get_transcript plain_lib hi_service ''https://vimeo.com]/123'' world0 =
       ([(''success'', PBool False), (''error'', PStr ''Invalid IPv6 URL'')], world0)
   \<and> get_transcript plain_lib hi_service ''https://vimeo.com]/123'' world0 \<noteq>
       ([(''error'', PStr ''Invalid YouTube URL'')], world0)"
  by (simp add: urlparse_stray_bracket extract_stray_bracket get_transcript_cases failure_def)

section \<open>Duplicate query parameters\<close>

lemma map_of_parse_qs_pairs:
  "map_of (parse_qs_pairs d pairs) k =
     (case map_of d k of
        None \<Rightarrow> (if map snd (filter (\<lambda>nv. fst nv = k) pairs) = [] then None
                  else Some (map snd (filter (\<lambda>nv. fst nv = k) pairs)))
      | Some old \<Rightarrow> Some (old @ map snd (filter (\<lambda>nv. fst nv = k) pairs)))"
proof (induction pairs arbitrary: d)
  case Nil
  then show ?case by (simp split: option.splits)
next
  case (Cons nv pairs)
  obtain name val where nv: "nv = (name, val)" by (cases nv)
  show ?case
  proof (cases "map_of d name")
    case None
    then show ?thesis
      using Cons.IH [of "d @ [(name, [val])]"]
      by (auto simp add: nv map_add_def split: option.splits)
  next
    case (Some vals)
    then show ?thesis
      using Cons.IH [of "AList.update name (vals @ [val]) d"]
      by (auto simp add: nv update_conv' split: option.splits)
  qed
qed

lemma parse_qsl_fields_values:
  "map snd (filter (\<lambda>nv. fst nv = name) (parse_qsl_fields L fs)) =
   map (unquote_plus L)
     (filter (\<lambda>v. v \<noteq> [])
        (map snd (filter (\<lambda>nv. unquote_plus L (fst nv) = name)
           (map (\<lambda>field. (fst (str_partition (CHR ''='') field),
                           snd (snd (str_partition (CHR ''='') field)))) fs))))"
  by (induction fs) (auto simp add: str_partition_def)

lemma parse_qsl_values:
  "map snd (filter (\<lambda>nv. fst nv = name) (parse_qsl L qs)) =
   map (unquote_plus L) (filter (\<lambda>v. v \<noteq> []) (param_values L name qs))"
proof (cases "qs = []")
  case True
  then show ?thesis
    by (simp add: parse_qsl_def param_values_def query_fields_def str_partition_def)
next
  case False
  then show ?thesis
    by (simp add: parse_qsl_def param_values_def query_fields_def parse_qsl_fields_values)
qed

text \<open>
  C10, as amended. For a URL with host \<^verbatim>\<open>youtube.com\<close> or \<^verbatim>\<open>www.youtube.com\<close> and path
  \<^verbatim>\<open>/watch\<close>, if the query gives the parameter \<^verbatim>\<open>v\<close> at least one value that is not
  empty, extraction yields the first value of \<^verbatim>\<open>v\<close> that is not empty, decoded (a plus
  read as a space, percent escapes decoded): \<^verbatim>\<open>?v=X&v=Y\<close> yields \<^verbatim>\<open>X\<close>, and \<^verbatim>\<open>?v=&v=Y\<close>
  yields \<^verbatim>\<open>Y\<close>, although the first value of \<^verbatim>\<open>v\<close> there is the empty string: the
  library drops the fields whose value is empty.
\<close>

theorem watch_returns_first_nonempty_v:
  assumes "urlparse L url = Inr parsed"
    and "hostname L parsed = Some ''youtube.com'' \<or> hostname L parsed = Some ''www.youtube.com''"
    and "path parsed = ''/watch''"
    and "filter (\<lambda>v. v \<noteq> []) (param_values L ''v'' (query parsed)) = x # xs"
  shows "extract_video_id L url = Inr (Some (unquote_plus L x))"
proof -
  have "map snd (filter (\<lambda>nv. fst nv = ''v'') (parse_qsl L (query parsed)))
        = unquote_plus L x # map (unquote_plus L) xs"
    using assms(4) by (simp add: parse_qsl_values)
  then have "map_of (parse_qs L (query parsed)) ''v''
             = Some (unquote_plus L x # map (unquote_plus L) xs)"
    by (simp add: parse_qs_def map_of_parse_qs_pairs)
  then have "py_getitem (parse_qs L (query parsed)) ''v''
             = Inr (unquote_plus L x # map (unquote_plus L) xs)"
    by (simp add: py_getitem_def)
  with assms(1-3) show ?thesis
    by (auto simp add: extract_video_id_def py_index_def)
qed

theorem watch_returns_first_nonempty_v_witness:
  "urlparse plain_lib ''https://www.youtube.com/watch?v=X&v=Y'' =
     Inr \<lparr>scheme = ''https'', netloc = ''www.youtube.com'', path = ''/watch'', params = [],
          query = ''v=X&v=Y'', fragment = []\<rparr>
   \<and> hostname plain_lib \<lparr>scheme = ''https'', netloc = ''www.youtube.com'', path = ''/watch'',
        params = [], query = ''v=X&v=Y'', fragment = []\<rparr> = Some ''www.youtube.com''
   \<and> param_values plain_lib ''v'' ''v=X&v=Y'' = [''X'', ''Y'']
   \<and> extract_video_id plain_lib ''https://www.youtube.com/watch?v=X&v=Y'' = Inr (Some ''X'')"
proof -
  note p = urlparse_watch_twice [of plain_lib] and h = hostname_watch_twice [of plain_lib]
  note vs = param_values_twice [of plain_lib]
  have ne: "filter (\<lambda>v. v \<noteq> [])
              (param_values plain_lib ''v''
                 (query \<lparr>scheme = ''https'', netloc = ''www.youtube.com'', path = ''/watch'',
                    params = [], query = ''v=X&v=Y'', fragment = []\<rparr>)) = [''X'', ''Y'']"
    by (simp add: vs)
  from watch_returns_first_nonempty_v [OF p _ _ ne] p h vs unquote_plus_X [of plain_lib]
  show ?thesis
    by simp
qed

theorem watch_returns_first_nonempty_v_counterexample:
  "urlparse plain_lib ''https://www.youtube.com/watch?v=&v=Y'' =
     Inr \<lparr>scheme = ''https'', netloc = ''www.youtube.com'', path = ''/watch'', params = [],
          query = ''v=&v=Y'', fragment = []\<rparr>
   \<and> param_values plain_lib ''v'' ''v=&v=Y'' = ['''', ''Y'']
   \<and> extract_video_id plain_lib ''https://www.youtube.com/watch?v=&v=Y'' = Inr (Some ''Y'')
   \<and> extract_video_id plain_lib ''https://www.youtube.com/watch?v=&v=Y'' \<noteq> Inr (Some '''')"
  by (simp add: urlparse_watch_blank extract_watch_blank param_values_blank)

section \<open>The entry point and the service\<close>

text \<open>
  C8. When \<^verbatim>\<open>sys.argv\<close> does not have exactly two entries (the program name and one URL),
  the program prints the usage object and exits with code 1; when it has, the program
  prints exactly one object and exits with code 0.
\<close>

theorem main_exit_codes:
  "(length argv \<noteq> 2 \<longrightarrow>
      main L service argv w =
        (1, w\<lparr>stdout := stdout w @
                 [[(''error'', PStr ''Usage: get_transcript.py <youtube_url>'')]]\<rparr>))
   \<and> (length argv = 2 \<longrightarrow>
      (\<exists>result w'. main L service argv w = (0, w') \<and> stdout w' = stdout w @ [result]))"
proof (intro conjI impI)
  assume "length argv \<noteq> 2"
  then show "main L service argv w =
        (1, w\<lparr>stdout := stdout w @
                 [[(''error'', PStr ''Usage: get_transcript.py <youtube_url>'')]]\<rparr>)"
    by (simp add: main_def)
next
  assume len: "length argv = 2"
  obtain result w1 where run: "get_transcript L service (argv ! 1) w = (result, w1)"
    by (cases "get_transcript L service (argv ! 1) w")
  have "stdout w1 = stdout w"
    using get_transcript_stdout [of L service "argv ! 1" w] run by simp
  with len run
  show "\<exists>result w'. main L service argv w = (0, w') \<and> stdout w' = stdout w @ [result]"
    by (simp add: main_def)
qed

theorem main_exit_codes_witness:
  "length [''get_transcript.py''] \<noteq> (2::nat)
   \<and> main plain_lib hi_service [''get_transcript.py''] world0 =
       (1, world0\<lparr>stdout := stdout world0 @
                [[(''error'', PStr ''Usage: get_transcript.py <youtube_url>'')]]\<rparr>)
   \<and> length [''get_transcript.py'', ''https://youtu.be/''] = (2::nat)
   \<and> (\<exists>result w'.
         main plain_lib hi_service [''get_transcript.py'', ''https://youtu.be/''] world0 = (0, w')
         \<and> stdout w' = stdout world0 @ [result])"
  using main_exit_codes [of "[''get_transcript.py'']" plain_lib hi_service world0]
    main_exit_codes [of "[''get_transcript.py'', ''https://youtu.be/'']" plain_lib hi_service world0]
  by simp

text \<open>
  C9. When the extracted identifier is the empty string, \<open>get_transcript\<close> answers as for
  \<^verbatim>\<open>None\<close>: the invalid-URL object, and the service is not asked (the world is unchanged).
\<close>

theorem empty_identifier_is_invalid:
  "extract_video_id L url = Inr (Some []) \<Longrightarrow>
   get_transcript L service url w = ([(''error'', PStr ''Invalid YouTube URL'')], w)"
  by (simp add: get_transcript_cases invalid_url_def)

theorem empty_identifier_is_invalid_witness:
  "extract_video_id plain_lib ''https://youtu.be/'' = Inr (Some [])
   \<and> get_transcript plain_lib hi_service ''https://youtu.be/'' world0 =
       ([(''error'', PStr ''Invalid YouTube URL'')], world0)"
  using empty_identifier_is_invalid [of plain_lib "''https://youtu.be/''" hi_service world0]
    extract_short_empty [of plain_lib]
  by simp

text \<open>
  C4. Whenever the service is asked during the run and raises an exception, \<open>get_transcript\<close>
  returns the failure object with the text of the exception, and the program prints that
  object and exits with code 0.
\<close>

theorem service_error_handled:
  "service_answer L service url w = Some (Inl e) \<Longrightarrow>
   fst (get_transcript L service url w) =
     [(''success'', PBool False), (''error'', PStr (py_str e))]
   \<and> (\<exists>w'. main L service [prog, url] w = (0, w') \<and>
          stdout w' = stdout w @ [[(''success'', PBool False), (''error'', PStr (py_str e))]])"
  by (auto simp add: service_answer_cases get_transcript_cases failure_def main_def
      split: sum.splits option.splits if_splits prod.splits)

theorem service_error_handled_witness:
  "service_answer plain_lib no_captions_service ''https://www.youtube.com/watch?v=abc123'' world0
     = Some (Inl (Raised ''no captions''))
   \<and> fst (get_transcript plain_lib no_captions_service
            ''https://www.youtube.com/watch?v=abc123'' world0) =
       [(''success'', PBool False), (''error'', PStr ''no captions'')]"
proof -
  have h: "service_answer plain_lib no_captions_service
             ''https://www.youtube.com/watch?v=abc123'' world0
           = Some (Inl (Raised ''no captions''))"
    by (simp add: service_answer_cases extract_watch_abc123 no_captions_service_def)
  from service_error_handled [OF h] h show ?thesis by simp
qed

text \<open>
  C7. When an identifier is extracted from the URL and the service, asked during the run,
  returns a sequence of segments, \<open>get_transcript\<close> returns the success object with that
  sequence as it is and the identifier.
\<close>

theorem success_passes_transcript:
  "extract_video_id L url = Inr (Some vid) \<Longrightarrow>
   service_answer L service url w = Some (Inr s) \<Longrightarrow>
   fst (get_transcript L service url w) =
     [(''success'', PBool True), (''transcript'', PList s), (''video_id'', PStr vid)]"
  by (auto simp add: service_answer_cases get_transcript_cases
      split: sum.splits option.splits if_splits)

theorem success_passes_transcript_witness:
  "extract_video_id plain_lib ''https://www.youtube.com/watch?v=abc123'' = Inr (Some ''abc123'')
   \<and> service_answer plain_lib hi_service ''https://www.youtube.com/watch?v=abc123'' world0
       = Some (Inr [''hi''])
   \<and> fst (get_transcript plain_lib hi_service ''https://www.youtube.com/watch?v=abc123'' world0) =
       [(''success'', PBool True), (''transcript'', PList [''hi'']),
        (''video_id'', PStr ''abc123'')]"
proof -
  have e: "extract_video_id plain_lib ''https://www.youtube.com/watch?v=abc123''
           = Inr (Some ''abc123'')"
    by (rule extract_watch_abc123)
  have h: "service_answer plain_lib hi_service ''https://www.youtube.com/watch?v=abc123'' world0
           = Some (Inr [''hi''])"
    by (simp add: service_answer_cases e hi_service_def)
  from success_passes_transcript [OF e h] e h show ?thesis by simp
qed

text \<open>
  C5, as amended. \<open>get_transcript\<close> asks the service exactly once, for the extracted
  identifier, when extraction yields an identifier that is not empty; when extraction
  yields \<^verbatim>\<open>None\<close> or the empty string it returns the invalid-URL object and the service is
  not asked (the world is unchanged).
\<close>

theorem service_called_once_or_never:
  "(extract_video_id L url = Inr (Some vid) \<and> vid \<noteq> [] \<longrightarrow>
      service_calls (snd (get_transcript L service url w)) = service_calls w @ [vid])
   \<and> (extract_video_id L url = Inr None \<or> extract_video_id L url = Inr (Some []) \<longrightarrow>
      get_transcript L service url w = ([(''error'', PStr ''Invalid YouTube URL'')], w))"
  by (auto simp add: get_transcript_cases invalid_url_def
      split: sum.splits option.splits if_splits)

theorem service_called_once_or_never_witness:
  "extract_video_id plain_lib ''https://www.youtube.com/watch?v=abc123'' = Inr (Some ''abc123'')
   \<and> ''abc123'' \<noteq> []
   \<and> service_calls (snd (get_transcript plain_lib hi_service
         ''https://www.youtube.com/watch?v=abc123'' world0)) = service_calls world0 @ [''abc123'']
   \<and> extract_video_id plain_lib ''https://youtu.be/'' = Inr (Some [])
   \<and> get_transcript plain_lib hi_service ''https://youtu.be/'' world0 =
        ([(''error'', PStr ''Invalid YouTube URL'')], world0)"
  using service_called_once_or_never
          [of plain_lib "''https://www.youtube.com/watch?v=abc123''" "''abc123''" hi_service world0]
        service_called_once_or_never [of plain_lib "''https://youtu.be/''" "[]" hi_service world0]
        extract_watch_abc123 [of plain_lib] extract_short_empty [of plain_lib]
  by simp

theorem service_called_once_or_never_counterexample:
  "extract_video_id plain_lib ''https://youtu.be/'' = Inr (Some [])
   \<and> length (service_calls (snd (get_transcript plain_lib hi_service ''https://youtu.be/'' world0)))
       \<noteq> 1"
  by (simp add: get_transcript_cases extract_short_empty world0_def)

end
